theory Spec2Isabelle
  imports Main
begin

section \<open>Go's float64\<close>

text \<open>
  The two globals of \<^verbatim>\<open>main.go\<close> are \<^verbatim>\<open>float64\<close> values. A value is modelled by what
  IEEE 754 binary64 distinguishes, apart from the payload of a NaN:
  \<^item> \<open>Finite s m e\<close> is \<open>(-1)^s * m * 2^e\<close>; the results of the operations below have
    \<open>m < 2^53\<close>, \<open>-1074 \<le> e \<le> 971\<close>, and \<open>2^52 \<le> m\<close> unless \<open>e = -1074\<close> (subnormals and
    the two zeros, \<open>Finite False 0 (-1074)\<close> and \<open>Finite True 0 (-1074)\<close>);
  \<^item> \<open>Infinity s\<close> is the infinity of sign \<open>s\<close> (\<open>True\<close> is negative);
  \<^item> \<open>NaN\<close> stands for every not-a-number pattern.
\<close>

datatype float64 = Finite bool nat int | Infinity bool | NaN

fun is_finite :: "float64 \<Rightarrow> bool" where
  "is_finite (Finite s m e) = True"
| "is_finite (Infinity s) = False"
| "is_finite NaN = False"

definition f64_zero :: "bool \<Rightarrow> float64" where
  "f64_zero s = Finite s 0 (- 1074)"

text \<open>Number of binary digits of a natural number.\<close>

fun bitlen :: "nat \<Rightarrow> nat" where
  "bitlen n = (if n = 0 then 0 else Suc (bitlen (n div 2)))"

declare bitlen.simps [simp del]

text \<open>\<open>ge_pow2 n d k\<close> decides \<open>2^k \<le> n / d\<close> for \<open>d > 0\<close>.\<close>

definition ge_pow2 :: "nat \<Rightarrow> nat \<Rightarrow> int \<Rightarrow> bool" where
  "ge_pow2 n d k = (if 0 \<le> k then d * 2 ^ nat k \<le> n else d \<le> n * 2 ^ nat (- k))"

text \<open>\<open>floor_log2 n d\<close> is the integer \<open>k\<close> with \<open>2^k \<le> n / d < 2^(k+1)\<close>, for \<open>n > 0\<close>, \<open>d > 0\<close>.\<close>

definition floor_log2 :: "nat \<Rightarrow> nat \<Rightarrow> int" where
  "floor_log2 n d =
     (if ge_pow2 n d (int (bitlen n) - int (bitlen d)) then int (bitlen n) - int (bitlen d)
      else int (bitlen n) - int (bitlen d) - 1)"

text \<open>The integer nearest to \<open>num / den\<close>, a tie going to the even one.\<close>

definition round_half_even :: "nat \<Rightarrow> nat \<Rightarrow> nat" where
  "round_half_even num den =
     (if den < 2 * (num mod den) \<or> (2 * (num mod den) = den \<and> (num div den) mod 2 = 1)
      then num div den + 1 else num div den)"

text \<open>
  A significand that rounding carried to \<open>2^53\<close> moves to the next exponent; a result
  beyond the largest finite value \<open>(2^53 - 1) * 2^971\<close> is the infinity.
\<close>

definition normalise :: "bool \<Rightarrow> nat \<Rightarrow> int \<Rightarrow> float64" where
  "normalise s m e =
     (if m = 2 ^ 53 then (if 971 < e + 1 then Infinity s else Finite s (2 ^ 52) (e + 1))
      else if 971 < e then Infinity s
      else Finite s m e)"

text \<open>\<open>round_at s n d e\<close> rounds \<open>n / d\<close> to a multiple of \<open>2^e\<close>.\<close>

definition round_at :: "bool \<Rightarrow> nat \<Rightarrow> nat \<Rightarrow> int \<Rightarrow> float64" where
  "round_at s n d e =
     (if 0 \<le> e then normalise s (round_half_even n (d * 2 ^ nat e)) e
      else normalise s (round_half_even (n * 2 ^ nat (- e)) d) e)"

text \<open>
  \<open>round_ratio s n d\<close> is the binary64 value nearest to \<open>(-1)^s * n / d\<close> (\<open>d > 0\<close>), ties
  to the even significand, which is the rounding of every float64 operation of Go. The
  exponent is chosen so that the quotient has 53 bits, and is not below -1074.
\<close>

definition round_ratio :: "bool \<Rightarrow> nat \<Rightarrow> nat \<Rightarrow> float64" where
  "round_ratio s n d =
     (if n = 0 then f64_zero s else round_at s n d (max (floor_log2 n d - 52) (- 1074)))"

text \<open>The value \<open>(-1)^s * n * 2^e\<close>, rounded.\<close>

definition round_scaled :: "bool \<Rightarrow> nat \<Rightarrow> int \<Rightarrow> float64" where
  "round_scaled s n e =
     (if 0 \<le> e then round_ratio s (n * 2 ^ nat e) 1 else round_ratio s n (2 ^ nat (- e)))"

text \<open>The conversion of an integer constant such as \<^verbatim>\<open>100\<close> to float64.\<close>

definition f64_of_nat :: "nat \<Rightarrow> float64" where
  "f64_of_nat n = round_ratio False n 1"

text \<open>
  Addition: the operands are brought to the smaller exponent and added as integers. An
  exact sum of zero is \<open>-0\<close> only when both operands are negative (both are then zeros),
  and \<open>+0\<close> otherwise.
\<close>

definition signed :: "bool \<Rightarrow> nat \<Rightarrow> int" where
  "signed s m = (if s then - int m else int m)"

definition add_exact :: "bool \<Rightarrow> bool \<Rightarrow> int \<Rightarrow> int \<Rightarrow> float64" where
  "add_exact s1 s2 c e =
     (if c = 0 then f64_zero (s1 \<and> s2) else round_scaled (c < 0) (nat \<bar>c\<bar>) e)"

fun f64_add :: "float64 \<Rightarrow> float64 \<Rightarrow> float64" where
  "f64_add NaN y = NaN"
| "f64_add x NaN = NaN"
| "f64_add (Infinity s1) (Infinity s2) = (if s1 = s2 then Infinity s1 else NaN)"
| "f64_add (Infinity s1) (Finite s2 m2 e2) = Infinity s1"
| "f64_add (Finite s1 m1 e1) (Infinity s2) = Infinity s2"
| "f64_add (Finite s1 m1 e1) (Finite s2 m2 e2) =
     add_exact s1 s2
       (signed s1 m1 * 2 ^ nat (e1 - min e1 e2) + signed s2 m2 * 2 ^ nat (e2 - min e1 e2))
       (min e1 e2)"

fun f64_mul :: "float64 \<Rightarrow> float64 \<Rightarrow> float64" where
  "f64_mul NaN y = NaN"
| "f64_mul x NaN = NaN"
| "f64_mul (Infinity s1) (Infinity s2) = Infinity (s1 \<noteq> s2)"
| "f64_mul (Infinity s1) (Finite s2 m2 e2) = (if m2 = 0 then NaN else Infinity (s1 \<noteq> s2))"
| "f64_mul (Finite s1 m1 e1) (Infinity s2) = (if m1 = 0 then NaN else Infinity (s1 \<noteq> s2))"
| "f64_mul (Finite s1 m1 e1) (Finite s2 m2 e2) = round_scaled (s1 \<noteq> s2) (m1 * m2) (e1 + e2)"

fun f64_div :: "float64 \<Rightarrow> float64 \<Rightarrow> float64" where
  "f64_div NaN y = NaN"
| "f64_div x NaN = NaN"
| "f64_div (Infinity s1) (Infinity s2) = NaN"
| "f64_div (Infinity s1) (Finite s2 m2 e2) = Infinity (s1 \<noteq> s2)"
| "f64_div (Finite s1 m1 e1) (Infinity s2) = f64_zero (s1 \<noteq> s2)"
| "f64_div (Finite s1 m1 e1) (Finite s2 m2 e2) =
     (if m2 = 0 then (if m1 = 0 then NaN else Infinity (s1 \<noteq> s2))
      else if 0 \<le> e1 - e2 then round_ratio (s1 \<noteq> s2) (m1 * 2 ^ nat (e1 - e2)) m2
      else round_ratio (s1 \<noteq> s2) m1 (m2 * 2 ^ nat (e2 - e1)))"


section \<open>The HTTP response writer\<close>

text \<open>
  What a handler sends goes through an \<^verbatim>\<open>http.ResponseWriter\<close>, library code of
  \<^verbatim>\<open>net/http\<close>. The model keeps the status line (\<open>None\<close> until it is written), the
  \<^verbatim>\<open>Content-Type\<close> header when a handler has set one, and the payloads written, in order.
  A JSON document is kept as the Go value it encodes, a text body as its characters.
\<close>

datatype payload =
    JSONPriceResponse float64
  | JSONMessage string string
  | PlainText string

record responseWriter =
  status :: "nat option"
  contentType :: "string option"
  body :: "payload list"

text \<open>The writer a handler receives: nothing sent yet.\<close>

definition newResponseWriter :: responseWriter where
  "newResponseWriter = \<lparr>status = None, contentType = None, body = []\<rparr>"

text \<open>
  \<^verbatim>\<open>w.Header().Set("Content-Type", v)\<close>: the header map is copied into the response when the
  status line is written, so a later change has no effect on the response.
\<close>

definition Header_Set_ContentType :: "responseWriter \<Rightarrow> string \<Rightarrow> responseWriter" where
  "Header_Set_ContentType w v = (if status w = None then w\<lparr>contentType := Some v\<rparr> else w)"

text \<open>\<^verbatim>\<open>w.WriteHeader(code)\<close>: only the first call sets the status.\<close>

definition WriteHeader :: "responseWriter \<Rightarrow> nat \<Rightarrow> responseWriter" where
  "WriteHeader w code = (if status w = None then w\<lparr>status := Some code\<rparr> else w)"

text \<open>\<^verbatim>\<open>w.Write(p)\<close>: writes the status line 200 first when none was written.\<close>

definition Write :: "responseWriter \<Rightarrow> payload \<Rightarrow> responseWriter" where
  "Write w p = (WriteHeader w 200)\<lparr>body := body w @ [p]\<rparr>"

text \<open>
  \<^verbatim>\<open>http.Error(w, msg, code)\<close>: sets the content type, writes the status line and prints the
  message followed by a newline.
\<close>

definition http_Error :: "responseWriter \<Rightarrow> string \<Rightarrow> nat \<Rightarrow> responseWriter" where
  "http_Error w msg code =
     Write (WriteHeader (Header_Set_ContentType w ''text/plain; charset=utf-8'') code)
       (PlainText (msg @ [CHR 0x0A]))"

section \<open>Errors and the JSON encoder\<close>

datatype error = ErrSyntax | ErrRange | UnsupportedValueError

record PriceRequest =
  BasePrice :: float64
  TaxRate :: float64

record PriceResponse =
  TotalPrice :: float64

text \<open>
  \<^verbatim>\<open>json.NewEncoder(w).Encode(response)\<close> for a \<^verbatim>\<open>PriceResponse\<close>: the encoder marshals the
  value first and writes only when that succeeded; a NaN or an infinity is not a JSON
  number and gives an \<^verbatim>\<open>UnsupportedValueError\<close>.
\<close>

definition Encode_PriceResponse :: "responseWriter \<Rightarrow> PriceResponse \<Rightarrow> error + responseWriter" where
  "Encode_PriceResponse w resp =
     (if is_finite (TotalPrice resp) then Inr (Write w (JSONPriceResponse (TotalPrice resp)))
      else Inl UnsupportedValueError)"

text \<open>The same for the one-entry \<^verbatim>\<open>map[string]string\<close> of the setters, which always marshals.\<close>

definition Encode_message :: "responseWriter \<Rightarrow> string \<Rightarrow> string \<Rightarrow> error + responseWriter" where
  "Encode_message w k v = Inr (Write w (JSONMessage k v))"

section \<open>The handlers of main.go\<close>

text \<open>
  The package-level variables \<^verbatim>\<open>basePrice\<close> and \<^verbatim>\<open>taxRate\<close>; both start at Go's zero value.
\<close>

record globals =
  basePrice :: float64
  taxRate :: float64

definition init_globals :: globals where
  "init_globals = \<lparr>basePrice = f64_zero False, taxRate = f64_zero False\<rparr>"

text \<open>
  A request as a handler sees it: the route variables that \<^verbatim>\<open>mux.Vars(r)\<close> returns, and the
  request body. Indexing a Go map at a missing key gives the empty string.
\<close>

record request =
  vars :: "string \<rightharpoonup> string"
  reqBody :: string

definition mux_Vars :: "request \<Rightarrow> string \<Rightarrow> string" where
  "mux_Vars r k = (case vars r k of None \<Rightarrow> [] | Some v \<Rightarrow> v)"

text \<open>
  \<^verbatim>\<open>strconv.ParseFloat(value, 64)\<close> is library code, so the setters take it as the
  parameter \<open>pf\<close>: the value returned together with the error, if any.
\<close>

type_synonym parser = "string \<Rightarrow> float64 \<times> error option"

text \<open>
  \<^verbatim>\<open>calculatePrice\<close> (lines 99 to 125). The span, the sleep and the log lines are left out.
\<close>

definition calculatePrice :: "request \<Rightarrow> globals \<Rightarrow> responseWriter \<Rightarrow> globals \<times> responseWriter" where
  "calculatePrice r g w =
     (let req = \<lparr>BasePrice = basePrice g, TaxRate = taxRate g\<rparr>;
          totalPrice = f64_add (BasePrice req)
                         (f64_div (f64_mul (BasePrice req) (TaxRate req)) (f64_of_nat 100));
          response = \<lparr>TotalPrice = totalPrice\<rparr>;
          w1 = Header_Set_ContentType w ''application/json'';
          w2 = WriteHeader w1 200
      in case Encode_PriceResponse w2 response of
           Inl err \<Rightarrow> (g, http_Error w2 ''Internal server error'' 500)
         | Inr w3 \<Rightarrow> (g, w3))"

text \<open>
  \<^verbatim>\<open>setBasePrice\<close> (lines 128 to 148): line 133 assigns both results of the parser, the
  value to the global and the error to \<^verbatim>\<open>err\<close>, and only then is the error tested.
\<close>

definition setBasePrice :: "parser \<Rightarrow> request \<Rightarrow> globals \<Rightarrow> responseWriter \<Rightarrow> globals \<times> responseWriter" where
  "setBasePrice pf r g w =
     (let value = mux_Vars r ''value'';
          (v, err) = pf value;
          g1 = g\<lparr>basePrice := v\<rparr>
      in case err of
           Some e \<Rightarrow> (g1, http_Error w ''Invalid base price'' 400)
         | None \<Rightarrow>
             (let w1 = WriteHeader w 200
              in case Encode_message w1 ''message'' ''Base price set'' of
                   Inl e \<Rightarrow> (g1, http_Error w1 ''Internal server error'' 500)
                 | Inr w2 \<Rightarrow> (g1, w2)))"

text \<open>\<^verbatim>\<open>setTaxRate\<close> (lines 151 to 171), the same on the other global.\<close>

definition setTaxRate :: "parser \<Rightarrow> request \<Rightarrow> globals \<Rightarrow> responseWriter \<Rightarrow> globals \<times> responseWriter" where
  "setTaxRate pf r g w =
     (let value = mux_Vars r ''value'';
          (v, err) = pf value;
          g1 = g\<lparr>taxRate := v\<rparr>
      in case err of
           Some e \<Rightarrow> (g1, http_Error w ''Invalid tax rate'' 400)
         | None \<Rightarrow>
             (let w1 = WriteHeader w 200
              in case Encode_message w1 ''message'' ''Tax rate set'' of
                   Inl e \<Rightarrow> (g1, http_Error w1 ''Internal server error'' 500)
                 | Inr w2 \<Rightarrow> (g1, w2)))"

section \<open>An instance of the parser\<close>

text \<open>
  \<open>ParseFloat64\<close> follows \<^verbatim>\<open>strconv.ParseFloat(s, 64)\<close> of the Go library: the special
  values (\<^verbatim>\<open>inf\<close>, \<^verbatim>\<open>infinity\<close> with an optional sign, \<^verbatim>\<open>nan\<close>, in any case), decimal numbers
  \<^verbatim>\<open>[+-]digits[.digits][(e|E)[+-]digits]\<close>, hexadecimal numbers
  \<^verbatim>\<open>[+-]0(x|X)hexdigits[.hexdigits](p|P)[+-]digits\<close>, and \<^verbatim>\<open>_\<close> between digits. The result
  is the float64 nearest to the number written, with \<^verbatim>\<open>ErrRange\<close> and an infinity on
  overflow; a malformed string gives the value 0 and \<^verbatim>\<open>ErrSyntax\<close>. It serves to run the
  handlers on concrete requests; the general theorems hold for every parser.
\<close>

definition lower :: "char \<Rightarrow> char" where
  "lower c = (let n = (of_char c :: nat) in if 65 \<le> n \<and> n \<le> 90 then char_of (n + 32) else c)"

definition is_digit :: "char \<Rightarrow> bool" where
  "is_digit c = (let n = (of_char c :: nat) in 48 \<le> n \<and> n \<le> 57)"

definition is_hex_letter :: "char \<Rightarrow> bool" where
  "is_hex_letter c = (let n = (of_char (lower c) :: nat) in 97 \<le> n \<and> n \<le> 102)"

text \<open>A digit of the mantissa: a decimal digit, or a letter \<^verbatim>\<open>a\<close> to \<^verbatim>\<open>f\<close> in a hexadecimal one.\<close>

definition is_mant_digit :: "bool \<Rightarrow> char \<Rightarrow> bool" where
  "is_mant_digit hex c = (if is_digit c then True else if hex then is_hex_letter c else False)"

definition digit_val :: "char \<Rightarrow> nat" where
  "digit_val c = (if is_digit c then (of_char c :: nat) - 48 else (of_char (lower c) :: nat) - 87)"

definition digits_val :: "nat \<Rightarrow> string \<Rightarrow> nat" where
  "digits_val base ds = foldl (\<lambda>a c. base * a + digit_val c) 0 ds"

text \<open>The exponent is accumulated only while it is below 10000, as the library does.\<close>

definition exp_val :: "string \<Rightarrow> nat" where
  "exp_val ds = foldl (\<lambda>e c. if e < 10000 then e * 10 + digit_val c else e) 0 ds"

fun parse_sign :: "string \<Rightarrow> bool \<times> string" where
  "parse_sign [] = (False, [])"
| "parse_sign (c # cs) =
     (if c = CHR ''+'' then (False, cs) else if c = CHR ''-'' then (True, cs) else (False, c # cs))"

definition special :: "string \<Rightarrow> float64 option" where
  "special s =
     (let (neg, rest) = parse_sign s;
          l = map lower rest
      in if l = ''inf'' \<or> l = ''infinity'' then Some (Infinity neg)
         else if map lower s = ''nan'' then Some NaN
         else None)"

text \<open>
  The prefix \<^verbatim>\<open>0x\<close> makes a hexadecimal number only when a character follows it.
\<close>

fun is_hex_prefix :: "string \<Rightarrow> bool" where
  "is_hex_prefix (c0 # c1 # c2 # cs) = (c0 = CHR ''0'' \<and> lower c1 = CHR ''x'')"
| "is_hex_prefix cs = False"

text \<open>
  The loop over the mantissa stops at a second point and at a character that is neither a
  digit, a point nor \<^verbatim>\<open>_\<close>; \<open>mant_span\<close> gives the characters it read and the rest.
\<close>

definition mant_stop :: "bool \<Rightarrow> bool \<Rightarrow> char \<Rightarrow> bool" where
  "mant_stop hex sawdot c =
     (if c = CHR ''_'' then False
      else if c = CHR ''.'' then sawdot
      else if is_mant_digit hex c then False
      else True)"

fun mant_span :: "bool \<Rightarrow> bool \<Rightarrow> string \<Rightarrow> string \<times> string" where
  "mant_span hex sawdot [] = ([], [])"
| "mant_span hex sawdot (c # cs) =
     (if mant_stop hex sawdot c then ([], c # cs)
      else (c # fst (mant_span hex (if c = CHR ''.'' then True else sawdot) cs),
            snd (mant_span hex (if c = CHR ''.'' then True else sawdot) cs)))"

text \<open>
  \<open>underscoreOK\<close>: every \<^verbatim>\<open>_\<close> stands between two digits, the base prefix counting as a
  digit. The state is the kind of the last character seen: \<^verbatim>\<open>^\<close> at the start, \<^verbatim>\<open>0\<close> for a
  digit, \<^verbatim>\<open>_\<close>, and \<^verbatim>\<open>!\<close> for anything else.
\<close>

definition underscore_step :: "bool \<Rightarrow> bool \<times> char \<Rightarrow> char \<Rightarrow> bool \<times> char" where
  "underscore_step hex st c =
     (if is_mant_digit hex c then (fst st, CHR ''0'')
      else if c = CHR ''_'' then (fst st \<and> snd st = CHR ''0'', CHR ''_'')
      else (fst st \<and> snd st \<noteq> CHR ''_'', CHR ''!''))"

fun has_base_prefix :: "string \<Rightarrow> bool" where
  "has_base_prefix (c0 # c1 # cs) =
     (c0 = CHR ''0'' \<and> (lower c1 = CHR ''b'' \<or> lower c1 = CHR ''o'' \<or> lower c1 = CHR ''x''))"
| "has_base_prefix cs = False"

definition underscoreOK :: "string \<Rightarrow> bool" where
  "underscoreOK s =
     (let r = snd (parse_sign s);
          pre = has_base_prefix r;
          hex = (pre \<and> lower (r ! 1) = CHR ''x'');
          st = foldl (underscore_step hex) (True, if pre then CHR ''0'' else CHR ''^'')
                 (if pre then drop 2 r else r)
      in fst st \<and> snd st \<noteq> CHR ''_'')"

text \<open>
  The exponent after its sign: a digit, then digits and \<^verbatim>\<open>_\<close> up to the end of the string.
\<close>

fun exp_digits_ok :: "string \<Rightarrow> bool" where
  "exp_digits_ok [] = False"
| "exp_digits_ok (c # cs) = (is_digit c \<and> list_all (\<lambda>d. is_digit d \<or> d = CHR ''_'') cs)"

text \<open>
  \<open>readFloat s\<close> gives the sign, whether the number is hexadecimal, the digits of the
  mantissa as a number, and the exponent of 10 (of 2 for a hexadecimal number) that the
  mantissa is scaled by; or \<open>None\<close> when \<open>s\<close> is not a number.
\<close>

definition readFloat :: "string \<Rightarrow> (bool \<times> bool \<times> nat \<times> int) option" where
  "readFloat s =
     (let (neg, r0) = parse_sign s;
          hex = is_hex_prefix r0;
          (m, r2) = mant_span hex False (if hex then drop 2 r0 else r0);
          md = filter (\<lambda>c. c \<noteq> CHR ''_'') m;
          ip = takeWhile (\<lambda>c. c \<noteq> CHR ''.'') md;
          fp = drop 1 (dropWhile (\<lambda>c. c \<noteq> CHR ''.'') md);
          mant = digits_val (if hex then 16 else 10) (ip @ fp);
          scale = (if hex then 4 * int (length fp) else int (length fp));
          us = (if CHR ''_'' \<in> set s then underscoreOK s else True)
      in if ip = [] \<and> fp = [] then None
         else (case r2 of
                 [] \<Rightarrow> if hex then None
                       else if us then Some (neg, hex, mant, - scale) else None
               | c # cs \<Rightarrow>
                   if lower c = (if hex then CHR ''p'' else CHR ''e'') then
                     (let (eneg, r3) = parse_sign cs;
                          e = int (exp_val (filter (\<lambda>c. c \<noteq> CHR ''_'') r3))
                      in if exp_digits_ok r3 \<and> us
                         then Some (neg, hex, mant, (if eneg then - e else e) - scale)
                         else None)
                   else None))"

text \<open>The float64 nearest to \<open>(-1)^neg * n * 10^e\<close>.\<close>

definition round_decimal :: "bool \<Rightarrow> nat \<Rightarrow> int \<Rightarrow> float64" where
  "round_decimal neg n e =
     (if 0 \<le> e then round_ratio neg (n * 10 ^ nat e) 1 else round_ratio neg n (10 ^ nat (- e)))"

definition ParseFloat64 :: parser where
  "ParseFloat64 s =
     (case special s of
        Some f \<Rightarrow> (f, None)
      | None \<Rightarrow>
          (case readFloat s of
             None \<Rightarrow> (f64_zero False, Some ErrSyntax)
           | Some (neg, hex, n, e) \<Rightarrow>
               (let f = (if hex then round_scaled neg n e else round_decimal neg n e)
                in if is_finite f then (f, None) else (f, Some ErrRange))))"

section \<open>The formula of the specification\<close>

text \<open>
  Section 4.2 of the specification: \<^verbatim>\<open>total_price = base_price + base_price * tax_rate / 100\<close>,
  read in float64 operations with Go's precedence (the product is divided, the quotient is
  added).
\<close>

definition computeTotal :: "float64 \<Rightarrow> float64 \<Rightarrow> float64" where
  "computeTotal base_price tax_rate =
     f64_add base_price (f64_div (f64_mul base_price tax_rate) (f64_of_nat 100))"

text \<open>The two replies of \<^verbatim>\<open>calculatePrice\<close>, and the requests used in the scenarios.\<close>

definition totalReply :: "float64 \<Rightarrow> responseWriter" where
  "totalReply t =
     \<lparr>status = Some 200, contentType = Some ''application/json'',
      body = [JSONPriceResponse t]\<rparr>"

definition encodeFailureReply :: responseWriter where
  "encodeFailureReply =
     \<lparr>status = Some 200, contentType = Some ''application/json'',
      body = [PlainText (''Internal server error'' @ [CHR 0x0A])]\<rparr>"

definition messageReply :: "string \<Rightarrow> responseWriter" where
  "messageReply m = \<lparr>status = Some 200, contentType = None, body = [JSONMessage ''message'' m]\<rparr>"

definition badRequestReply :: "string \<Rightarrow> responseWriter" where
  "badRequestReply m =
     \<lparr>status = Some 400, contentType = Some ''text/plain; charset=utf-8'',
      body = [PlainText (m @ [CHR 0x0A])]\<rparr>"

definition setRequest :: "string \<Rightarrow> request" where
  "setRequest s = \<lparr>vars = [''value'' \<mapsto> s], reqBody = []\<rparr>"

definition calcRequest :: "string \<Rightarrow> request" where
  "calcRequest b = \<lparr>vars = Map.empty, reqBody = b\<rparr>"

section \<open>Evaluating the float64 operations\<close>

lemma bitlen_0: "bitlen 0 = 0"
  by (simp add: bitlen.simps)

lemma bitlen_One: "bitlen (numeral Num.One) = 1"
  by (simp add: bitlen.simps)

lemma bitlen_Bit0: "bitlen (numeral (Num.Bit0 n)) = Suc (bitlen (numeral n))"
  by (subst bitlen.simps) simp

lemma bitlen_Bit1: "bitlen (numeral (Num.Bit1 n)) = Suc (bitlen (numeral n))"
  by (subst bitlen.simps) simp

lemmas f64_eval =
  round_ratio_def round_at_def normalise_def round_half_even_def floor_log2_def
  round_scaled_def ge_pow2_def f64_of_nat_def f64_zero_def computeTotal_def
  add_exact_def signed_def bitlen_0 bitlen_One bitlen_Bit0 bitlen_Bit1

lemma f64_of_nat_100: "f64_of_nat 100 = Finite False 7036874417766400 (- 46)"
  by (simp add: f64_eval)

lemma f64_of_nat_20: "f64_of_nat 20 = Finite False 5629499534213120 (- 48)"
  by (simp add: f64_eval)

lemma f64_of_nat_120: "f64_of_nat 120 = Finite False 8444249301319680 (- 46)"
  by (simp add: f64_eval)

lemma f64_of_nat_1000: "f64_of_nat 1000 = Finite False 8796093022208000 (- 43)"
  by (simp add: f64_eval)

lemma computeTotal_100_20: "computeTotal (f64_of_nat 100) (f64_of_nat 20) = f64_of_nat 120"
  unfolding f64_of_nat_100 f64_of_nat_20 f64_of_nat_120 by (simp add: f64_eval)

lemma computeTotal_minus_100_20:
  "computeTotal (Finite True 7036874417766400 (- 46)) (f64_of_nat 20)
     = Finite True 8444249301319680 (- 46)"
  unfolding f64_of_nat_20 by (simp add: f64_eval)

lemma computeTotal_1e308_1000:
  "computeTotal (Finite False 5010420900022432 971) (f64_of_nat 1000) = Infinity False"
  unfolding f64_of_nat_1000 by (simp add: f64_eval)

subsection \<open>A total that is not finite\<close>

lemma f64_mul_not_finite: "\<not> is_finite x \<or> \<not> is_finite y \<Longrightarrow> \<not> is_finite (f64_mul x y)"
  by (cases x; cases y) auto

lemma f64_div_100_not_finite: "\<not> is_finite x \<Longrightarrow> \<not> is_finite (f64_div x (f64_of_nat 100))"
  unfolding f64_of_nat_100 by (cases x) auto

lemma f64_add_not_finite: "\<not> is_finite x \<or> \<not> is_finite y \<Longrightarrow> \<not> is_finite (f64_add x y)"
  by (cases x; cases y) auto

lemma computeTotal_not_finite:
  assumes "\<not> is_finite b \<or> \<not> is_finite t"
  shows "\<not> is_finite (computeTotal b t)"
proof -
  from assms have "\<not> is_finite (f64_mul b t)"
    by (rule f64_mul_not_finite)
  then have "\<not> is_finite (f64_div (f64_mul b t) (f64_of_nat 100))"
    by (rule f64_div_100_not_finite)
  then show ?thesis
    unfolding computeTotal_def by (simp add: f64_add_not_finite)
qed

section \<open>Evaluating the parser instance\<close>

lemmas parse_eval = ParseFloat64_def round_decimal_def f64_eval

lemma ParseFloat64_100: "ParseFloat64 ''100'' = (f64_of_nat 100, None)"
proof -
  have "special ''100'' = None" by code_simp
  moreover have "readFloat ''100'' = Some (False, False, 100, 0)" by code_simp
  ultimately show ?thesis by (simp add: parse_eval)
qed

lemma ParseFloat64_20: "ParseFloat64 ''20'' = (f64_of_nat 20, None)"
proof -
  have "special ''20'' = None" by code_simp
  moreover have "readFloat ''20'' = Some (False, False, 20, 0)" by code_simp
  ultimately show ?thesis by (simp add: parse_eval)
qed

lemma ParseFloat64_abc: "ParseFloat64 ''abc'' = (f64_zero False, Some ErrSyntax)"
proof -
  have "special ''abc'' = None" by code_simp
  moreover have "readFloat ''abc'' = None" by code_simp
  ultimately show ?thesis by (simp add: ParseFloat64_def)
qed

lemma ParseFloat64_NaN: "ParseFloat64 ''NaN'' = (NaN, None)"
proof -
  have "special ''NaN'' = Some NaN" by code_simp
  then show ?thesis by (simp add: ParseFloat64_def)
qed

lemma ParseFloat64_1e308: "ParseFloat64 ''1e308'' = (Finite False 5010420900022432 971, None)"
proof -
  have "special ''1e308'' = None" by code_simp
  moreover have "readFloat ''1e308'' = Some (False, False, 1, 308)" by code_simp
  ultimately show ?thesis by (simp add: parse_eval)
qed

lemma ParseFloat64_1e400: "ParseFloat64 ''1e400'' = (Infinity False, Some ErrRange)"
proof -
  have "special ''1e400'' = None" by code_simp
  moreover have "readFloat ''1e400'' = Some (False, False, 1, 400)" by code_simp
  ultimately show ?thesis by (simp add: parse_eval)
qed

text \<open>An exponent form, a hexadecimal form and a digit separator: 100, 0.25 and 1000.\<close>

lemma ParseFloat64_1e2: "ParseFloat64 ''1e2'' = (f64_of_nat 100, None)"
proof -
  have "special ''1e2'' = None" by code_simp
  moreover have "readFloat ''1e2'' = Some (False, False, 1, 2)" by code_simp
  ultimately show ?thesis by (simp add: parse_eval)
qed

lemma ParseFloat64_0x1p_2: "ParseFloat64 ''0x1p-2'' = (Finite False 4503599627370496 (- 54), None)"
proof -
  have "special ''0x1p-2'' = None" by code_simp
  moreover have "readFloat ''0x1p-2'' = Some (False, True, 1, - 2)" by code_simp
  ultimately show ?thesis by (simp add: parse_eval)
qed

lemma ParseFloat64_1_000: "ParseFloat64 ''1_000'' = (f64_of_nat 1000, None)"
proof -
  have "special ''1_000'' = None" by code_simp
  moreover have "readFloat ''1_000'' = Some (False, False, 1000, 0)" by code_simp
  ultimately show ?thesis by (simp add: parse_eval)
qed

section \<open>What the handlers do\<close>

lemma mux_Vars_setRequest: "mux_Vars (setRequest s) ''value'' = s"
  by (simp add: mux_Vars_def setRequest_def)

lemmas writer_defs =
  newResponseWriter_def Header_Set_ContentType_def WriteHeader_def Write_def http_Error_def
  Encode_message_def Encode_PriceResponse_def

lemma setBasePrice_globals:
  "fst (setBasePrice pf r g w) = g\<lparr>basePrice := fst (pf (mux_Vars r ''value''))\<rparr>"
  by (simp add: setBasePrice_def Let_def Encode_message_def split: prod.splits option.splits)

lemma setTaxRate_globals:
  "fst (setTaxRate pf r g w) = g\<lparr>taxRate := fst (pf (mux_Vars r ''value''))\<rparr>"
  by (simp add: setTaxRate_def Let_def Encode_message_def split: prod.splits option.splits)

lemma setBasePrice_accept:
  "pf (mux_Vars r ''value'') = (v, None) \<Longrightarrow>
   setBasePrice pf r g newResponseWriter = (g\<lparr>basePrice := v\<rparr>, messageReply ''Base price set'')"
  by (simp add: setBasePrice_def Let_def writer_defs messageReply_def)

lemma setTaxRate_accept:
  "pf (mux_Vars r ''value'') = (v, None) \<Longrightarrow>
   setTaxRate pf r g newResponseWriter = (g\<lparr>taxRate := v\<rparr>, messageReply ''Tax rate set'')"
  by (simp add: setTaxRate_def Let_def writer_defs messageReply_def)

lemma setBasePrice_reject:
  "pf (mux_Vars r ''value'') = (v, Some e) \<Longrightarrow>
   setBasePrice pf r g newResponseWriter = (g\<lparr>basePrice := v\<rparr>, badRequestReply ''Invalid base price'')"
  by (simp add: setBasePrice_def Let_def writer_defs badRequestReply_def)

lemma setTaxRate_reject:
  "pf (mux_Vars r ''value'') = (v, Some e) \<Longrightarrow>
   setTaxRate pf r g newResponseWriter = (g\<lparr>taxRate := v\<rparr>, badRequestReply ''Invalid tax rate'')"
  by (simp add: setTaxRate_def Let_def writer_defs badRequestReply_def)

lemma calculatePrice_reply:
  "calculatePrice r g newResponseWriter =
     (g, if is_finite (computeTotal (basePrice g) (taxRate g))
         then totalReply (computeTotal (basePrice g) (taxRate g))
         else encodeFailureReply)"
  by (simp add: calculatePrice_def Let_def writer_defs computeTotal_def totalReply_def
      encodeFailureReply_def)

lemma encodeFailureReply_neq_totalReply: "encodeFailureReply \<noteq> totalReply t"
  by (simp add: encodeFailureReply_def totalReply_def)

lemma encodeFailureReply_body:
  "body encodeFailureReply = [PlainText (''Internal server error'' @ [CHR 0x0A])]"
  by (simp add: encodeFailureReply_def)

lemma badRequestReply_status: "status (badRequestReply m) = Some 400"
  by (simp add: badRequestReply_def)

section \<open>The claims\<close>

text \<open>
  C1. The claim: for every non-numeric path segment, \<^verbatim>\<open>POST /setBasePrice/s\<close> answers 400
  and leaves the stored base price as it was. The handler run on the segment \<^verbatim>\<open>abc\<close> with
  a stored base price of 100: the answer is 400, and the stored base price is now 0, the
  value the parser returned with its error, not 100.
\<close>

theorem setBasePrice_abc_overwrites:
  "setBasePrice ParseFloat64 (setRequest ''abc'')
     \<lparr>basePrice = f64_of_nat 100, taxRate = f64_of_nat 20\<rparr> newResponseWriter
   = (\<lparr>basePrice = f64_zero False, taxRate = f64_of_nat 20\<rparr>,
      badRequestReply ''Invalid base price'')
   \<and> status (badRequestReply ''Invalid base price'') = Some 400
   \<and> f64_zero False \<noteq> f64_of_nat 100"
  using setBasePrice_reject [of ParseFloat64 "setRequest ''abc''" "f64_zero False" ErrSyntax
      "\<lparr>basePrice = f64_of_nat 100, taxRate = f64_of_nat 20\<rparr>"]
  by (simp add: mux_Vars_setRequest ParseFloat64_abc badRequestReply_status f64_of_nat_100
      f64_zero_def)

text \<open>
  C3. For every pair of stored values, \<^verbatim>\<open>calculatePrice\<close> computes the total
  \<open>base_price + base_price * tax_rate / 100\<close> in float64 operations, a function of the two
  values only, and changes neither of them; a finite total is sent as it is, with status
  200, and a total that is not finite is refused by the JSON encoder.
\<close>

theorem calculatePrice_computeTotal:
  "calculatePrice r g newResponseWriter =
     (g, if is_finite (computeTotal (basePrice g) (taxRate g))
         then totalReply (computeTotal (basePrice g) (taxRate g))
         else encodeFailureReply)"
  by (rule calculatePrice_reply)

text \<open>At the stored values -100 and 20 the reply is the total -120, as it was computed.\<close>

theorem calculatePrice_computeTotal_witness:
  "calculatePrice (calcRequest [])
     \<lparr>basePrice = Finite True 7036874417766400 (- 46), taxRate = f64_of_nat 20\<rparr>
     newResponseWriter
   = (\<lparr>basePrice = Finite True 7036874417766400 (- 46), taxRate = f64_of_nat 20\<rparr>,
      totalReply (Finite True 8444249301319680 (- 46)))"
  using calculatePrice_computeTotal [of "calcRequest []"
      "\<lparr>basePrice = Finite True 7036874417766400 (- 46), taxRate = f64_of_nat 20\<rparr>"]
  by (simp add: computeTotal_minus_100_20)

text \<open>
  C4, as amended. When the segment parses to \<open>v\<close>, \<^verbatim>\<open>POST /setBasePrice/v\<close> followed by
  \<^verbatim>\<open>POST /calculate\<close> answers 200 with the total \<open>v + v * tax_rate / 100\<close>, for the tax rate
  stored at that moment, provided this float64 total is finite; when the total is a NaN or
  an infinity, the JSON encoder refuses it and the reply carries the text of the failure
  and no total. From the default state, setting the base price 100, then the tax rate 20,
  then calculating, answers with the total 120.
\<close>

theorem setBasePrice_then_calculatePrice:
  "(pf (mux_Vars r1 ''value'') = (v, None) \<and> is_finite (computeTotal v (taxRate g)) \<longrightarrow>
      calculatePrice r2 (fst (setBasePrice pf r1 g w)) newResponseWriter =
        (g\<lparr>basePrice := v\<rparr>, totalReply (computeTotal v (taxRate g))))
   \<and> (pf (mux_Vars r1 ''value'') = (v, None) \<and> \<not> is_finite (computeTotal v (taxRate g)) \<longrightarrow>
      fst (calculatePrice r2 (fst (setBasePrice pf r1 g w)) newResponseWriter)
        = g\<lparr>basePrice := v\<rparr>
      \<and> body (snd (calculatePrice r2 (fst (setBasePrice pf r1 g w)) newResponseWriter))
        = [PlainText (''Internal server error'' @ [CHR 0x0A])])
   \<and> snd (calculatePrice (calcRequest [])
           (fst (setTaxRate ParseFloat64 (setRequest ''20'')
              (fst (setBasePrice ParseFloat64 (setRequest ''100'') init_globals
                 newResponseWriter))
              newResponseWriter))
           newResponseWriter)
       = totalReply (f64_of_nat 120)"
proof (intro conjI impI)
  assume a: "pf (mux_Vars r1 ''value'') = (v, None) \<and> is_finite (computeTotal v (taxRate g))"
  then show "calculatePrice r2 (fst (setBasePrice pf r1 g w)) newResponseWriter =
        (g\<lparr>basePrice := v\<rparr>, totalReply (computeTotal v (taxRate g)))"
    by (simp add: setBasePrice_globals calculatePrice_reply)
next
  assume b: "pf (mux_Vars r1 ''value'') = (v, None) \<and> \<not> is_finite (computeTotal v (taxRate g))"
  then show "fst (calculatePrice r2 (fst (setBasePrice pf r1 g w)) newResponseWriter)
        = g\<lparr>basePrice := v\<rparr>"
    by (simp add: setBasePrice_globals calculatePrice_reply)
  from b show "body (snd (calculatePrice r2 (fst (setBasePrice pf r1 g w)) newResponseWriter))
        = [PlainText (''Internal server error'' @ [CHR 0x0A])]"
    by (simp add: setBasePrice_globals calculatePrice_reply encodeFailureReply_body)
next
  show "snd (calculatePrice (calcRequest [])
           (fst (setTaxRate ParseFloat64 (setRequest ''20'')
              (fst (setBasePrice ParseFloat64 (setRequest ''100'') init_globals
                 newResponseWriter))
              newResponseWriter))
           newResponseWriter)
       = totalReply (f64_of_nat 120)"
    by (simp add: setBasePrice_globals setTaxRate_globals calculatePrice_reply
        mux_Vars_setRequest ParseFloat64_100 ParseFloat64_20 init_globals_def
        computeTotal_100_20) (simp add: f64_of_nat_120)
qed

text \<open>
  Both cases at concrete requests: the segment \<^verbatim>\<open>100\<close> with the tax rate 20 stored gives
  the total 120, and the segment \<^verbatim>\<open>1e308\<close> with the tax rate 1000 stored gives a total that
  is not finite and the text of the failure.
\<close>

theorem setBasePrice_then_calculatePrice_witness:
  "ParseFloat64 (mux_Vars (setRequest ''100'') ''value'') = (f64_of_nat 100, None)
   \<and> is_finite (computeTotal (f64_of_nat 100) (f64_of_nat 20))
   \<and> calculatePrice (calcRequest [])
        (fst (setBasePrice ParseFloat64 (setRequest ''100'')
           \<lparr>basePrice = f64_zero False, taxRate = f64_of_nat 20\<rparr> newResponseWriter))
        newResponseWriter
      = (\<lparr>basePrice = f64_of_nat 100, taxRate = f64_of_nat 20\<rparr>, totalReply (f64_of_nat 120))
   \<and> ParseFloat64 (mux_Vars (setRequest ''1e308'') ''value'')
      = (Finite False 5010420900022432 971, None)
   \<and> \<not> is_finite (computeTotal (Finite False 5010420900022432 971) (f64_of_nat 1000))
   \<and> body (snd (calculatePrice (calcRequest [])
        (fst (setBasePrice ParseFloat64 (setRequest ''1e308'')
           \<lparr>basePrice = f64_zero False, taxRate = f64_of_nat 1000\<rparr> newResponseWriter))
        newResponseWriter))
      = [PlainText (''Internal server error'' @ [CHR 0x0A])]"
  using
    setBasePrice_then_calculatePrice [of ParseFloat64 "setRequest ''100''"
      "f64_of_nat 100" "\<lparr>basePrice = f64_zero False, taxRate = f64_of_nat 20\<rparr>"
      "calcRequest []" newResponseWriter]
    setBasePrice_then_calculatePrice [of ParseFloat64 "setRequest ''1e308''"
      "Finite False 5010420900022432 971"
      "\<lparr>basePrice = f64_zero False, taxRate = f64_of_nat 1000\<rparr>"
      "calcRequest []" newResponseWriter]
  by (simp add: mux_Vars_setRequest ParseFloat64_100 ParseFloat64_1e308 computeTotal_100_20
      computeTotal_1e308_1000)
     (simp add: f64_of_nat_120)

text \<open>
  C4 as stated fails: with the tax rate 1000 stored, \<^verbatim>\<open>POST /setBasePrice/1e308\<close> succeeds,
  the total overflows to the infinity, and the reply to \<^verbatim>\<open>POST /calculate\<close> is the text of
  the encoding failure, with no total in it.
\<close>

theorem setBasePrice_1e308_no_total:
  "setBasePrice ParseFloat64 (setRequest ''1e308'')
      \<lparr>basePrice = f64_zero False, taxRate = f64_of_nat 1000\<rparr> newResponseWriter
    = (\<lparr>basePrice = Finite False 5010420900022432 971, taxRate = f64_of_nat 1000\<rparr>,
       messageReply ''Base price set'')
   \<and> snd (calculatePrice (calcRequest [])
        \<lparr>basePrice = Finite False 5010420900022432 971, taxRate = f64_of_nat 1000\<rparr>
        newResponseWriter) = encodeFailureReply
   \<and> encodeFailureReply \<noteq>
        totalReply (computeTotal (Finite False 5010420900022432 971) (f64_of_nat 1000))"
  by (simp add: setBasePrice_accept mux_Vars_setRequest ParseFloat64_1e308
      calculatePrice_reply computeTotal_1e308_1000 encodeFailureReply_neq_totalReply)

text \<open>
  C5. The reply of \<^verbatim>\<open>calculatePrice\<close> and the state it leaves are the same for two requests
  that differ in their body only, and indeed for any two requests: they depend on the
  stored values alone.
\<close>

theorem calculatePrice_ignores_request:
  "calculatePrice (r\<lparr>reqBody := b1\<rparr>) g w = calculatePrice (r\<lparr>reqBody := b2\<rparr>) g w
   \<and> calculatePrice r1 g w = calculatePrice r2 g w"
  by (simp add: calculatePrice_def)

text \<open>
  C6. When the path segment parses to \<open>v\<close> without error, \<^verbatim>\<open>setBasePrice\<close> stores \<open>v\<close> as the
  base price and answers 200 with the JSON object \<^verbatim>\<open>{"message": "Base price set"}\<close>;
  \<^verbatim>\<open>setTaxRate\<close> does the same on the tax rate with the message \<^verbatim>\<open>Tax rate set\<close>.
\<close>

theorem setters_accept:
  assumes "pf (mux_Vars r ''value'') = (v, None)"
  shows "setBasePrice pf r g newResponseWriter
           = (g\<lparr>basePrice := v\<rparr>,
              \<lparr>status = Some 200, contentType = None,
               body = [JSONMessage ''message'' ''Base price set'']\<rparr>)
         \<and> setTaxRate pf r g newResponseWriter
           = (g\<lparr>taxRate := v\<rparr>,
              \<lparr>status = Some 200, contentType = None,
               body = [JSONMessage ''message'' ''Tax rate set'']\<rparr>)"
  using assms by (simp add: setBasePrice_accept setTaxRate_accept messageReply_def)

theorem setters_accept_witness:
  "ParseFloat64 (mux_Vars (setRequest ''100'') ''value'') = (f64_of_nat 100, None)
   \<and> setBasePrice ParseFloat64 (setRequest ''100'') init_globals newResponseWriter
       = (\<lparr>basePrice = f64_of_nat 100, taxRate = f64_zero False\<rparr>,
          \<lparr>status = Some 200, contentType = None,
           body = [JSONMessage ''message'' ''Base price set'']\<rparr>)
   \<and> setTaxRate ParseFloat64 (setRequest ''100'') init_globals newResponseWriter
       = (\<lparr>basePrice = f64_zero False, taxRate = f64_of_nat 100\<rparr>,
          \<lparr>status = Some 200, contentType = None,
           body = [JSONMessage ''message'' ''Tax rate set'']\<rparr>)"
  using setters_accept [of ParseFloat64 "setRequest ''100''" "f64_of_nat 100" init_globals]
  by (simp add: mux_Vars_setRequest ParseFloat64_100 init_globals_def)

text \<open>
  C7. Whatever the request, the parser and the state, \<^verbatim>\<open>setBasePrice\<close> leaves the stored tax
  rate as it was and \<^verbatim>\<open>setTaxRate\<close> leaves the stored base price as it was, on success and
  on failure alike.
\<close>

theorem setters_frame:
  "taxRate (fst (setBasePrice pf r g w)) = taxRate g
   \<and> basePrice (fst (setTaxRate pf r g w)) = basePrice g"
  by (simp add: setBasePrice_globals setTaxRate_globals)

text \<open>
  C8. Running a setter twice in a row on the same request leaves the same stored values as
  running it once, and sends the same reply on a fresh writer.
\<close>

theorem setters_idempotent:
  "fst (setBasePrice pf r (fst (setBasePrice pf r g w)) w') = fst (setBasePrice pf r g w)
   \<and> fst (setTaxRate pf r (fst (setTaxRate pf r g w)) w') = fst (setTaxRate pf r g w)
   \<and> snd (setBasePrice pf r (fst (setBasePrice pf r g w)) newResponseWriter)
       = snd (setBasePrice pf r g newResponseWriter)
   \<and> snd (setTaxRate pf r (fst (setTaxRate pf r g w)) newResponseWriter)
       = snd (setTaxRate pf r g newResponseWriter)"
  by (simp add: setBasePrice_globals setTaxRate_globals)
     (simp add: setBasePrice_def setTaxRate_def Let_def split: prod.splits option.splits)

text \<open>
  C9. When the parser returns an error for the path segment, together with a value \<open>v\<close>,
  \<^verbatim>\<open>setBasePrice\<close> has stored \<open>v\<close> as the base price when it answers 400, and \<^verbatim>\<open>setTaxRate\<close>
  has stored \<open>v\<close> as the tax rate: the rejected request overwrites the stored value.
\<close>

theorem setters_reject_overwrite:
  assumes "pf (mux_Vars r ''value'') = (v, Some e)"
  shows "setBasePrice pf r g newResponseWriter
           = (g\<lparr>basePrice := v\<rparr>,
              \<lparr>status = Some 400, contentType = Some ''text/plain; charset=utf-8'',
               body = [PlainText (''Invalid base price'' @ [CHR 0x0A])]\<rparr>)
         \<and> setTaxRate pf r g newResponseWriter
           = (g\<lparr>taxRate := v\<rparr>,
              \<lparr>status = Some 400, contentType = Some ''text/plain; charset=utf-8'',
               body = [PlainText (''Invalid tax rate'' @ [CHR 0x0A])]\<rparr>)"
  using assms by (simp add: setBasePrice_reject setTaxRate_reject badRequestReply_def)

text \<open>
  The instance returns 0 for the malformed \<^verbatim>\<open>abc\<close> and the infinity for the out-of-range
  \<^verbatim>\<open>1e400\<close>; either value replaces a stored 100.
\<close>

theorem setters_reject_overwrite_witness:
  "ParseFloat64 (mux_Vars (setRequest ''abc'') ''value'') = (f64_zero False, Some ErrSyntax)
   \<and> fst (setBasePrice ParseFloat64 (setRequest ''abc'')
        \<lparr>basePrice = f64_of_nat 100, taxRate = f64_of_nat 100\<rparr> newResponseWriter)
       = \<lparr>basePrice = f64_zero False, taxRate = f64_of_nat 100\<rparr>
   \<and> fst (setTaxRate ParseFloat64 (setRequest ''abc'')
        \<lparr>basePrice = f64_of_nat 100, taxRate = f64_of_nat 100\<rparr> newResponseWriter)
       = \<lparr>basePrice = f64_of_nat 100, taxRate = f64_zero False\<rparr>
   \<and> ParseFloat64 (mux_Vars (setRequest ''1e400'') ''value'') = (Infinity False, Some ErrRange)
   \<and> fst (setBasePrice ParseFloat64 (setRequest ''1e400'')
        \<lparr>basePrice = f64_of_nat 100, taxRate = f64_of_nat 100\<rparr> newResponseWriter)
       = \<lparr>basePrice = Infinity False, taxRate = f64_of_nat 100\<rparr>"
  using
    setters_reject_overwrite [of ParseFloat64 "setRequest ''abc''" "f64_zero False" ErrSyntax
      "\<lparr>basePrice = f64_of_nat 100, taxRate = f64_of_nat 100\<rparr>"]
    setters_reject_overwrite [of ParseFloat64 "setRequest ''1e400''" "Infinity False" ErrRange
      "\<lparr>basePrice = f64_of_nat 100, taxRate = f64_of_nat 100\<rparr>"]
  by (simp add: mux_Vars_setRequest ParseFloat64_abc ParseFloat64_1e400)

text \<open>
  C10, as amended. A setter refuses no segment that the parser accepts, whatever the form
  of the segment (\<^verbatim>\<open>NaN\<close>, \<^verbatim>\<open>Inf\<close>, \<^verbatim>\<open>-Inf\<close>, hexadecimal and exponent forms) and whatever
  its value: it answers 200 and stores the value, with no check of range or finiteness.
  When the value stored is a NaN or an infinity, the total that \<^verbatim>\<open>calculatePrice\<close> then
  computes is a NaN or an infinity too; the JSON encoder refuses it, and the reply carries
  the text of the failure and no total.
\<close>

theorem setters_no_validation:
  "(pf (mux_Vars r ''value'') = (v, None) \<longrightarrow>
      setBasePrice pf r g newResponseWriter
        = (g\<lparr>basePrice := v\<rparr>, messageReply ''Base price set'')
      \<and> setTaxRate pf r g newResponseWriter
        = (g\<lparr>taxRate := v\<rparr>, messageReply ''Tax rate set'')
      \<and> status (messageReply ''Base price set'') = Some 200
      \<and> status (messageReply ''Tax rate set'') = Some 200)
   \<and> (pf (mux_Vars r ''value'') = (v, None) \<and> \<not> is_finite v \<longrightarrow>
      \<not> is_finite (computeTotal v (taxRate g))
      \<and> \<not> is_finite (computeTotal (basePrice g) v)
      \<and> body (snd (calculatePrice r' (fst (setBasePrice pf r g newResponseWriter))
           newResponseWriter))
         = [PlainText (''Internal server error'' @ [CHR 0x0A])]
      \<and> body (snd (calculatePrice r' (fst (setTaxRate pf r g newResponseWriter))
           newResponseWriter))
         = [PlainText (''Internal server error'' @ [CHR 0x0A])])"
proof (intro conjI impI)
  assume a: "pf (mux_Vars r ''value'') = (v, None)"
  then show "setBasePrice pf r g newResponseWriter
        = (g\<lparr>basePrice := v\<rparr>, messageReply ''Base price set'')"
    by (rule setBasePrice_accept)
  from a show "setTaxRate pf r g newResponseWriter
        = (g\<lparr>taxRate := v\<rparr>, messageReply ''Tax rate set'')"
    by (rule setTaxRate_accept)
  show "status (messageReply ''Base price set'') = Some 200"
    by (simp add: messageReply_def)
  show "status (messageReply ''Tax rate set'') = Some 200"
    by (simp add: messageReply_def)
next
  assume b: "pf (mux_Vars r ''value'') = (v, None) \<and> \<not> is_finite v"
  then have nf: "\<not> is_finite (computeTotal v (taxRate g))"
    "\<not> is_finite (computeTotal (basePrice g) v)"
    by (simp_all add: computeTotal_not_finite)
  from nf show "\<not> is_finite (computeTotal v (taxRate g))"
    and "\<not> is_finite (computeTotal (basePrice g) v)"
    by simp_all
  from b nf
  show "body (snd (calculatePrice r' (fst (setBasePrice pf r g newResponseWriter))
           newResponseWriter))
         = [PlainText (''Internal server error'' @ [CHR 0x0A])]"
    by (simp add: setBasePrice_globals calculatePrice_reply encodeFailureReply_body)
  from b nf
  show "body (snd (calculatePrice r' (fst (setTaxRate pf r g newResponseWriter))
           newResponseWriter))
         = [PlainText (''Internal server error'' @ [CHR 0x0A])]"
    by (simp add: setTaxRate_globals calculatePrice_reply encodeFailureReply_body)
qed

text \<open>
  On the instance: the hexadecimal \<^verbatim>\<open>0x1p-2\<close> is stored as 0.25 and the exponent form
  \<^verbatim>\<open>1e2\<close> as 100, both with the answer 200; \<^verbatim>\<open>NaN\<close> is stored with the answer 200, and the
  reply to the calculation that follows is the text of the failure.
\<close>

theorem setters_no_validation_witness:
  "ParseFloat64 (mux_Vars (setRequest ''0x1p-2'') ''value'')
     = (Finite False 4503599627370496 (- 54), None)
   \<and> setBasePrice ParseFloat64 (setRequest ''0x1p-2'') init_globals newResponseWriter
     = (init_globals\<lparr>basePrice := Finite False 4503599627370496 (- 54)\<rparr>,
        messageReply ''Base price set'')
   \<and> ParseFloat64 (mux_Vars (setRequest ''1e2'') ''value'') = (f64_of_nat 100, None)
   \<and> setTaxRate ParseFloat64 (setRequest ''1e2'') init_globals newResponseWriter
     = (init_globals\<lparr>taxRate := f64_of_nat 100\<rparr>, messageReply ''Tax rate set'')
   \<and> ParseFloat64 (mux_Vars (setRequest ''NaN'') ''value'') = (NaN, None)
   \<and> \<not> is_finite NaN
   \<and> setBasePrice ParseFloat64 (setRequest ''NaN'') init_globals newResponseWriter
       = (init_globals\<lparr>basePrice := NaN\<rparr>, messageReply ''Base price set'')
   \<and> status (messageReply ''Base price set'') = Some 200
   \<and> body (snd (calculatePrice (calcRequest [])
        (fst (setBasePrice ParseFloat64 (setRequest ''NaN'') init_globals newResponseWriter))
        newResponseWriter))
       = [PlainText (''Internal server error'' @ [CHR 0x0A])]"
proof -
  have h1: "ParseFloat64 (mux_Vars (setRequest ''0x1p-2'') ''value'')
     = (Finite False 4503599627370496 (- 54), None)"
    by (simp add: mux_Vars_setRequest ParseFloat64_0x1p_2)
  have h2: "ParseFloat64 (mux_Vars (setRequest ''1e2'') ''value'') = (f64_of_nat 100, None)"
    by (simp add: mux_Vars_setRequest ParseFloat64_1e2)
  have h3: "ParseFloat64 (mux_Vars (setRequest ''NaN'') ''value'') = (NaN, None)"
    by (simp add: mux_Vars_setRequest ParseFloat64_NaN)
  have h4: "ParseFloat64 (mux_Vars (setRequest ''NaN'') ''value'') = (NaN, None)
      \<and> \<not> is_finite NaN"
    using h3 by simp
  note hex = setters_no_validation [of ParseFloat64 "setRequest ''0x1p-2''"
      "Finite False 4503599627370496 (- 54)" init_globals, THEN conjunct1, rule_format, OF h1]
  note exp = setters_no_validation [of ParseFloat64 "setRequest ''1e2''" "f64_of_nat 100"
      init_globals, THEN conjunct1, rule_format, OF h2]
  note nan = setters_no_validation [of ParseFloat64 "setRequest ''NaN''" NaN init_globals,
      THEN conjunct1, rule_format, OF h3]
  note calc = setters_no_validation [of ParseFloat64 "setRequest ''NaN''" NaN init_globals
      "calcRequest []", THEN conjunct2, rule_format, OF h4]
  from h1 h2 h3 hex exp nan calc show ?thesis
    by (intro conjI) simp_all
qed

text \<open>
  C10 as stated fails: after \<^verbatim>\<open>POST /setBasePrice/NaN\<close> on the default state, the reply to
  \<^verbatim>\<open>POST /calculate\<close> is not the NaN total.
\<close>

theorem calculatePrice_NaN_not_returned:
  "fst (setBasePrice ParseFloat64 (setRequest ''NaN'') init_globals newResponseWriter)
     = \<lparr>basePrice = NaN, taxRate = f64_zero False\<rparr>
   \<and> computeTotal NaN (f64_zero False) = NaN
   \<and> snd (calculatePrice (calcRequest []) \<lparr>basePrice = NaN, taxRate = f64_zero False\<rparr>
        newResponseWriter) \<noteq> totalReply NaN
   \<and> body (snd (calculatePrice (calcRequest []) \<lparr>basePrice = NaN, taxRate = f64_zero False\<rparr>
        newResponseWriter)) = [PlainText (''Internal server error'' @ [CHR 0x0A])]"
  by (simp add: setBasePrice_globals mux_Vars_setRequest ParseFloat64_NaN init_globals_def
      calculatePrice_reply computeTotal_def encodeFailureReply_def totalReply_def)

end
